theory Spec2Isabelle
  imports Main
begin

section \<open>The process state seen by the program\<close>

text \<open>
  The state outside the two source files that they read or change: the process
  environment (\<^verbatim>\<open>os.environ\<close>), the environment file that \<^verbatim>\<open>find_dotenv()\<close>
  locates, standard output, and the tool objects that the class body constructs.

  \<^item> \<open>environ\<close> is \<^verbatim>\<open>os.environ\<close>: a dictionary from names to strings.
  \<^item> \<open>dotenv_file\<close> holds the bindings of the environment file as the dotenv parser
    yields them (name and value of every line that gives a value); it is empty when
    no file is found.
  \<^item> \<open>dotenv_loads\<close> counts how often the environment file has been read.
  \<^item> \<open>stdout\<close> is the text written to standard output so far.
  \<^item> \<open>tool_objects\<close> lists the tool objects constructed so far; an object is named by
    its position in the list.
\<close>

datatype tool_class = SerperDevTool | ScrapeWebsiteTool | WebsiteSearchTool

type_synonym tool_ref = nat

record world =
  environ :: "string \<rightharpoonup> string"
  dotenv_file :: "string \<rightharpoonup> string"
  dotenv_loads :: nat
  stdout :: string
  tool_objects :: "tool_class list"

datatype py_error = TypeError | KeyError string

section \<open>env\_helper.py\<close>

text \<open>
  \<^verbatim>\<open>load_dotenv(find_dotenv())\<close> belongs to the python-dotenv library. With its default
  \<^verbatim>\<open>override=False\<close> it reads the file and sets every name bound there that the
  process environment does not hold yet; a name that is already set keeps its value.
  Neither call raises when there is no file. The boolean that \<^verbatim>\<open>load_dotenv\<close> returns
  is dropped by its only caller and is left out.
\<close>

definition load_dotenv :: "world \<Rightarrow> world" where
  "load_dotenv w =
     w\<lparr>environ := dotenv_file w ++ environ w, dotenv_loads := Suc (dotenv_loads w)\<rparr>"

text \<open>\<^verbatim>\<open>def load_env(): _ = load_dotenv(find_dotenv())\<close>\<close>

definition load_env :: "world \<Rightarrow> world" where
  "load_env w = load_dotenv w"

text \<open>\<^verbatim>\<open>os.getenv(key)\<close>: the value of \<open>key\<close>, or Python's \<^verbatim>\<open>None\<close> when it is not set.\<close>

definition getenv :: "string \<Rightarrow> world \<Rightarrow> string option" where
  "getenv key w = environ w key"

text \<open>
  \<^verbatim>\<open>def get_value(key) -> str: load_env(); return os.getenv(key)\<close>.
  Neither statement has a failing branch for a string key, so the function is total;
  it returns the value read together with the state it leaves behind.
\<close>

definition get_value :: "string \<Rightarrow> world \<Rightarrow> string option \<times> world" where
  "get_value key w = (let w' = load_env w in (getenv key w', w'))"

section \<open>crew.py: the output schema\<close>

text \<open>
  The two pydantic classes. A class is its name and its fields in declaration order; a
  field is its name, its annotation, whether it is required (\<^verbatim>\<open>Field(...)\<close> with the
  ellipsis) and its description.
\<close>

datatype py_type = PyStr | PyList py_type | PyModel base_model
  and base_model = BaseModel (model_name: string) (model_fields: "field list")
  and field = PyField (field_name: string) (annotation: py_type) (required: bool)
                (description: string)

definition SocialMediaPost :: base_model where
  "SocialMediaPost = BaseModel ''SocialMediaPost''
     [PyField ''platform'' PyStr True
        ''The social media platform where the post will be published (e.g., Twitter, LinkedIn).'',
      PyField ''content'' PyStr True
        ''The content of the social media post, including any hashtags or mentions.'']"

definition ContentOutput :: base_model where
  "ContentOutput = BaseModel ''ContentOutput''
     [PyField ''article'' PyStr True ''The article, formatted in markdown.'',
      PyField ''social_media_posts'' (PyList (PyModel SocialMediaPost)) True
        ''A list of social media posts related to the article.'']"

section \<open>crew.py: the objects of the framework\<close>

text \<open>
  \<^verbatim>\<open>Agent\<close>, \<^verbatim>\<open>Task\<close>, \<^verbatim>\<open>Crew\<close> and \<^verbatim>\<open>Process\<close> come from the orchestration framework.
  They are modelled by the arguments this program passes. The configuration entries
  come from two YAML files that are read at run time; their type is the parameter \<open>'c\<close>.
  An argument that a call leaves out is \<open>None\<close> here; for \<^verbatim>\<open>tools\<close> the framework's
  default is the empty list.
\<close>

datatype 'c agent = Agent (agent_config: 'c) (tools: "tool_ref list")

definition Agent_init :: "'c \<Rightarrow> tool_ref list option \<Rightarrow> 'c agent" where
  "Agent_init config tools_arg =
     Agent config (case tools_arg of None \<Rightarrow> [] | Some ts \<Rightarrow> ts)"

datatype 'c task =
  Task (task_config: 'c) (task_context: "'c task list option")
    (output_pydantic: "base_model option") (output_file: "string option")

datatype process = sequential | hierarchical

datatype 'c crew =
  Crew (agents: "'c agent list") (tasks: "'c task list") (process: process) (verbose: bool)

section \<open>crew.py: the class body\<close>

text \<open>\<^verbatim>\<open>print(s)\<close> writes \<open>s\<close> and a newline.\<close>

definition py_print :: "string \<Rightarrow> world \<Rightarrow> world" where
  "py_print s w = w\<lparr>stdout := stdout w @ s @ [CHR 0x0A]\<rparr>"

text \<open>How an f-string renders the value of \<open>get_value\<close>: a string as itself, \<^verbatim>\<open>None\<close> as \<^verbatim>\<open>None\<close>.\<close>

definition py_format :: "string option \<Rightarrow> string" where
  "py_format v = (case v of None \<Rightarrow> ''None'' | Some s \<Rightarrow> s)"

text \<open>
  \<^verbatim>\<open>os.environ[key] = value\<close>: \<^verbatim>\<open>os.environ\<close> accepts strings only and raises
  \<^verbatim>\<open>TypeError\<close> for any other value, \<^verbatim>\<open>None\<close> included.
\<close>

definition environ_setitem :: "string \<Rightarrow> string option \<Rightarrow> world \<Rightarrow> py_error + world" where
  "environ_setitem key v w =
     (case v of
        None \<Rightarrow> Inl TypeError
      | Some s \<Rightarrow> Inr (w\<lparr>environ := (environ w)(key \<mapsto> s)\<rparr>))"

text \<open>Constructing a tool object: it is appended to the objects of the process.\<close>

definition new_tool :: "tool_class \<Rightarrow> world \<Rightarrow> tool_ref \<times> world" where
  "new_tool c w = (length (tool_objects w), w\<lparr>tool_objects := tool_objects w @ [c]\<rparr>)"

text \<open>
  The attributes that the class body binds. The class attributes \<^verbatim>\<open>agents_config\<close> and
  \<^verbatim>\<open>tasks_config\<close> hold the paths of the YAML files; they are called
  \<open>agents_config_file\<close> and \<open>tasks_config_file\<close> here, since on an instance the framework
  replaces them by the dictionaries read from those files.
\<close>

record class_attrs =
  agents_config_file :: string
  tasks_config_file :: string
  serperApiKey :: "string option"
  serper :: tool_ref
  scraper :: tool_ref
  searcher :: tool_ref

text \<open>
  The statements of the class body of \<^verbatim>\<open>AgenticContentCreation\<close>, lines 26 to 36, in
  order. They run once, when the module is imported. The result is the class attributes,
  or the exception that ended the class body; the state reached is returned in both cases.
\<close>

definition class_body :: "world \<Rightarrow> (py_error + class_attrs) \<times> world" where
  "class_body w0 =
     (let (key1, w1) = get_value ''SERPER_API_KEY'' w0;
          w2 = py_print (''*****SERPER_API_KEY: '' @ py_format key1) w1;
          (key2, w3) = get_value ''SERPER_API_KEY'' w2
      in case environ_setitem ''SERPER_API_KEY'' key2 w3 of
           Inl e \<Rightarrow> (Inl e, w3)
         | Inr w4 \<Rightarrow>
             (let (o1, w5) = new_tool SerperDevTool w4;
                  (o2, w6) = new_tool ScrapeWebsiteTool w5;
                  (o3, w7) = new_tool WebsiteSearchTool w6
              in (Inr \<lparr>agents_config_file = ''config/agents.yaml'',
                       tasks_config_file = ''config/tasks.yaml'',
                       serperApiKey = key1,
                       serper = o1, scraper = o2, searcher = o3\<rparr>, w7)))"

section \<open>crew.py: agents, tasks and the crew\<close>

text \<open>
  An instance of the class: the class attributes, and the two YAML files as the
  framework loads them into \<^verbatim>\<open>self.agents_config\<close> and \<^verbatim>\<open>self.tasks_config\<close>. The
  files are not part of the sources, so both dictionaries are parameters.
\<close>

record 'c crew_instance =
  cls :: class_attrs
  agents_config :: "string \<rightharpoonup> 'c"
  tasks_config :: "string \<rightharpoonup> 'c"

text \<open>\<^verbatim>\<open>d[key]\<close> on a dictionary raises \<^verbatim>\<open>KeyError\<close> for a missing key.\<close>

definition getitem :: "(string \<rightharpoonup> 'c) \<Rightarrow> string \<Rightarrow> py_error + 'c" where
  "getitem d key = (case d key of None \<Rightarrow> Inl (KeyError key) | Some v \<Rightarrow> Inr v)"

definition market_news_monitor_agent :: "'c crew_instance \<Rightarrow> py_error + 'c agent" where
  "market_news_monitor_agent self =
     (case getitem (agents_config self) ''market_news_monitor_agent'' of
        Inl e \<Rightarrow> Inl e
      | Inr c \<Rightarrow> Inr (Agent_init c (Some [serper (cls self), scraper (cls self)])))"

definition data_analyst_agent :: "'c crew_instance \<Rightarrow> py_error + 'c agent" where
  "data_analyst_agent self =
     (case getitem (agents_config self) ''data_analyst_agent'' of
        Inl e \<Rightarrow> Inl e
      | Inr c \<Rightarrow> Inr (Agent_init c (Some [serper (cls self), searcher (cls self)])))"

definition content_creator_agent :: "'c crew_instance \<Rightarrow> py_error + 'c agent" where
  "content_creator_agent self =
     (case getitem (agents_config self) ''content_creator_agent'' of
        Inl e \<Rightarrow> Inl e
      | Inr c \<Rightarrow> Inr (Agent_init c (Some [serper (cls self), scraper (cls self)])))"

definition quality_assurance_agent :: "'c crew_instance \<Rightarrow> py_error + 'c agent" where
  "quality_assurance_agent self =
     (case getitem (agents_config self) ''quality_assurance_agent'' of
        Inl e \<Rightarrow> Inl e
      | Inr c \<Rightarrow> Inr (Agent_init c None))"

definition monitor_market_news_task :: "'c crew_instance \<Rightarrow> py_error + 'c task" where
  "monitor_market_news_task self =
     (case getitem (tasks_config self) ''monitor_market_news_task'' of
        Inl e \<Rightarrow> Inl e
      | Inr c \<Rightarrow> Inr (Task c None None None))"

definition analyze_market_data_task :: "'c crew_instance \<Rightarrow> py_error + 'c task" where
  "analyze_market_data_task self =
     (case getitem (tasks_config self) ''analyze_market_data_task'' of
        Inl e \<Rightarrow> Inl e
      | Inr c \<Rightarrow> Inr (Task c None None None))"

text \<open>The \<^verbatim>\<open>context=\<close> argument of this task is commented out in the source.\<close>

definition create_content_task :: "'c crew_instance \<Rightarrow> py_error + 'c task" where
  "create_content_task self =
     (case getitem (tasks_config self) ''create_content_task'' of
        Inl e \<Rightarrow> Inl e
      | Inr c \<Rightarrow> Inr (Task c None None None))"

definition quality_assurance_task :: "'c crew_instance \<Rightarrow> py_error + 'c task" where
  "quality_assurance_task self =
     (case getitem (tasks_config self) ''quality_assurance_task'' of
        Inl e \<Rightarrow> Inl e
      | Inr c \<Rightarrow> Inr (Task c None (Some ContentOutput) (Some ''report.md'')))"

text \<open>
  \<^verbatim>\<open>self.agents\<close> and \<^verbatim>\<open>self.tasks\<close> are filled by the framework's \<^verbatim>\<open>CrewBase\<close>: it calls
  the methods marked \<^verbatim>\<open>@agent\<close>, and those marked \<^verbatim>\<open>@task\<close>, in the order in which the
  class declares them, and keeps the results in that order. The first exception ends
  the collection.
\<close>

fun collect :: "('e + 'a) list \<Rightarrow> 'e + 'a list" where
  "collect [] = Inr []"
| "collect (Inl e # rs) = Inl e"
| "collect (Inr x # rs) = (case collect rs of Inl e \<Rightarrow> Inl e | Inr xs \<Rightarrow> Inr (x # xs))"

definition self_agents :: "'c crew_instance \<Rightarrow> py_error + 'c agent list" where
  "self_agents self =
     collect [market_news_monitor_agent self, data_analyst_agent self,
              content_creator_agent self, quality_assurance_agent self]"

definition self_tasks :: "'c crew_instance \<Rightarrow> py_error + 'c task list" where
  "self_tasks self =
     collect [monitor_market_news_task self, analyze_market_data_task self,
              create_content_task self, quality_assurance_task self]"

text \<open>
  \<^verbatim>\<open>return Crew(agents=self.agents, tasks=self.tasks, process=Process.sequential,
  verbose=True)\<close>
\<close>

definition crew :: "'c crew_instance \<Rightarrow> py_error + 'c crew" where
  "crew self =
     (case self_agents self of
        Inl e \<Rightarrow> Inl e
      | Inr as \<Rightarrow>
          (case self_tasks self of
             Inl e \<Rightarrow> Inl e
           | Inr ts \<Rightarrow> Inr (Crew as ts sequential True)))"

section \<open>Concrete inputs\<close>

text \<open>The key bound in the environment file only, next to one other binding.\<close>

definition w_file_only :: world where
  "w_file_only =
     \<lparr>environ = [''HOME'' \<mapsto> ''/root''],
      dotenv_file = [''SERPER_API_KEY'' \<mapsto> ''k-file'', ''OPENAI_API_KEY'' \<mapsto> ''o-file''],
      dotenv_loads = 0, stdout = [], tool_objects = []\<rparr>"

text \<open>The key bound nowhere.\<close>

definition w_unset :: world where
  "w_unset =
     \<lparr>environ = [''HOME'' \<mapsto> ''/root''],
      dotenv_file = [''OPENAI_API_KEY'' \<mapsto> ''o-file''],
      dotenv_loads = 0, stdout = [], tool_objects = []\<rparr>"

text \<open>The key bound in the process environment, with two different values.\<close>

definition w_key_a :: world where
  "w_key_a =
     \<lparr>environ = [''SERPER_API_KEY'' \<mapsto> ''aaa''], dotenv_file = Map.empty,
      dotenv_loads = 0, stdout = [], tool_objects = []\<rparr>"

definition w_key_b :: world where
  "w_key_b =
     \<lparr>environ = [''SERPER_API_KEY'' \<mapsto> ''bbb''], dotenv_file = Map.empty,
      dotenv_loads = 0, stdout = [], tool_objects = []\<rparr>"

text \<open>The key bound in both places, with different values.\<close>

definition w_both :: world where
  "w_both =
     \<lparr>environ = [''HOME'' \<mapsto> ''/root'', ''SERPER_API_KEY'' \<mapsto> ''k-env''],
      dotenv_file = [''SERPER_API_KEY'' \<mapsto> ''k-file'', ''OPENAI_API_KEY'' \<mapsto> ''o-file''],
      dotenv_loads = 0, stdout = [], tool_objects = []\<rparr>"

text \<open>An instance whose YAML files hold an entry for every agent and task.\<close>

definition cls_example :: class_attrs where
  "cls_example =
     \<lparr>agents_config_file = ''config/agents.yaml'', tasks_config_file = ''config/tasks.yaml'',
      serperApiKey = Some ''k-file'', serper = 0, scraper = 1, searcher = 2\<rparr>"

definition self_example :: "string crew_instance" where
  "self_example =
     \<lparr>cls = cls_example,
      agents_config =
        [''market_news_monitor_agent'' \<mapsto> ''monitor'', ''data_analyst_agent'' \<mapsto> ''analyst'',
         ''content_creator_agent'' \<mapsto> ''creator'', ''quality_assurance_agent'' \<mapsto> ''qa''],
      tasks_config =
        [''monitor_market_news_task'' \<mapsto> ''t1'', ''analyze_market_data_task'' \<mapsto> ''t2'',
         ''create_content_task'' \<mapsto> ''t3'', ''quality_assurance_task'' \<mapsto> ''t4'']\<rparr>"

text \<open>The crew that \<open>self_example\<close> assembles.\<close>

definition crew_example :: "string crew" where
  "crew_example =
     Crew [Agent ''monitor'' [0, 1], Agent ''analyst'' [0, 2],
           Agent ''creator'' [0, 1], Agent ''qa'' []]
          [Task ''t1'' None None None, Task ''t2'' None None None, Task ''t3'' None None None,
           Task ''t4'' None (Some ContentOutput) (Some ''report.md'')]
          sequential True"

section \<open>Facts about the loader\<close>

lemma environ_load_env: "environ (load_env w) = dotenv_file w ++ environ w"
  by (simp add: load_env_def load_dotenv_def)

lemma dotenv_file_load_env: "dotenv_file (load_env w) = dotenv_file w"
  by (simp add: load_env_def load_dotenv_def)

lemma stdout_load_env: "stdout (load_env w) = stdout w"
  by (simp add: load_env_def load_dotenv_def)

lemma tool_objects_load_env: "tool_objects (load_env w) = tool_objects w"
  by (simp add: load_env_def load_dotenv_def)


lemma fst_get_value: "fst (get_value key w) = (dotenv_file w ++ environ w) key"
  by (simp add: get_value_def Let_def getenv_def environ_load_env)

lemma snd_get_value: "snd (get_value key w) = load_env w"
  by (simp add: get_value_def Let_def)

text \<open>Loading the same file a second time changes no variable.\<close>

lemma map_add_twice: "f ++ f ++ e = f ++ e"
  by (rule ext) (auto simp: map_add_def split: option.split)

section \<open>Facts about the class body\<close>

lemma environ_py_print: "environ (py_print s w) = environ w"
  by (simp add: py_print_def)

lemma dotenv_file_py_print: "dotenv_file (py_print s w) = dotenv_file w"
  by (simp add: py_print_def)

lemma tool_objects_py_print: "tool_objects (py_print s w) = tool_objects w"
  by (simp add: py_print_def)

lemma stdout_py_print: "stdout (py_print s w) = stdout w @ s @ [CHR 0x0A]"
  by (simp add: py_print_def)

text \<open>
  The class body in closed form: both calls of \<open>get_value\<close> find the same value, and
  the assignment at line 33 decides between the exception and the three constructions.
\<close>

lemma class_body_unfold:
  "class_body w =
     (let w3 = load_env (py_print (''*****SERPER_API_KEY: '' @
                  py_format (fst (get_value ''SERPER_API_KEY'' w))) (load_env w))
      in case fst (get_value ''SERPER_API_KEY'' w) of
           None \<Rightarrow> (Inl TypeError, w3)
         | Some s \<Rightarrow>
            (Inr \<lparr>agents_config_file = ''config/agents.yaml'',
                  tasks_config_file = ''config/tasks.yaml'',
                  serperApiKey = Some s,
                  serper = length (tool_objects w),
                  scraper = Suc (length (tool_objects w)),
                  searcher = Suc (Suc (length (tool_objects w)))\<rparr>,
             w3\<lparr>environ := (environ w3)(''SERPER_API_KEY'' \<mapsto> s),
                tool_objects :=
                  tool_objects w @ [SerperDevTool, ScrapeWebsiteTool, WebsiteSearchTool]\<rparr>))"
proof (cases "fst (get_value ''SERPER_API_KEY'' w)")
  case None
  then have "(dotenv_file w ++ environ w) ''SERPER_API_KEY'' = None"
    by (simp add: fst_get_value)
  then show ?thesis
    by (simp add: class_body_def Let_def split_beta fst_get_value snd_get_value
        environ_setitem_def environ_load_env dotenv_file_load_env
        environ_py_print dotenv_file_py_print map_add_twice del: map_add_None)
next
  case (Some s)
  then have "(dotenv_file w ++ environ w) ''SERPER_API_KEY'' = Some s"
    by (simp add: fst_get_value)
  then show ?thesis
    by (simp add: class_body_def Let_def split_beta fst_get_value snd_get_value
        environ_setitem_def new_tool_def environ_load_env dotenv_file_load_env
        tool_objects_load_env environ_py_print dotenv_file_py_print tool_objects_py_print
        map_add_twice)
qed

lemma environ_class_body: "environ (snd (class_body w)) = dotenv_file w ++ environ w"
proof (cases "fst (get_value ''SERPER_API_KEY'' w)")
  case None
  then show ?thesis
    by (simp add: class_body_unfold Let_def environ_load_env dotenv_file_load_env
        environ_py_print dotenv_file_py_print map_add_twice)
next
  case (Some s)
  then have "(dotenv_file w ++ environ w) ''SERPER_API_KEY'' = Some s"
    by (simp add: fst_get_value)
  then have "(dotenv_file w ++ environ w)(''SERPER_API_KEY'' \<mapsto> s) = dotenv_file w ++ environ w"
    by (rule map_upd_triv)
  with Some show ?thesis
    by (simp add: class_body_unfold Let_def environ_load_env dotenv_file_load_env
        environ_py_print dotenv_file_py_print map_add_twice)
qed

lemma stdout_class_body:
  "stdout (snd (class_body w)) =
     stdout w @ ''*****SERPER_API_KEY: '' @
       py_format (fst (get_value ''SERPER_API_KEY'' w)) @ [CHR 0x0A]"
  by (cases "fst (get_value ''SERPER_API_KEY'' w)")
     (simp_all add: class_body_unfold Let_def stdout_load_env stdout_py_print)

text \<open>The class body raises exactly when the key is bound nowhere.\<close>

lemma class_body_raises_iff:
  "fst (class_body w) = Inl TypeError \<longleftrightarrow> fst (get_value ''SERPER_API_KEY'' w) = None"
  by (cases "fst (get_value ''SERPER_API_KEY'' w)") (simp_all add: class_body_unfold Let_def)

lemma class_body_Inr:
  assumes "fst (class_body w) = Inr c"
  shows "\<exists>s. fst (get_value ''SERPER_API_KEY'' w) = Some s \<and> serperApiKey c = Some s \<and>
           serper c = length (tool_objects w) \<and> scraper c = Suc (length (tool_objects w)) \<and>
           searcher c = Suc (Suc (length (tool_objects w)))"
  using assms
  by (cases "fst (get_value ''SERPER_API_KEY'' w)") (auto simp add: class_body_unfold Let_def)


lemma class_body_w_file_only: "fst (class_body w_file_only) = Inr cls_example"
  by (simp add: class_body_unfold Let_def fst_get_value w_file_only_def cls_example_def)

section \<open>Facts about the agents, the tasks and the crew\<close>

lemmas agent_defs = market_news_monitor_agent_def data_analyst_agent_def
  content_creator_agent_def quality_assurance_agent_def

lemmas task_defs = monitor_market_news_task_def analyze_market_data_task_def
  create_content_task_def quality_assurance_task_def

lemma collect_map_Inr: "collect (map Inr xs) = Inr xs"
  by (induction xs) simp_all

lemma collect_InrD: "collect rs = Inr xs \<Longrightarrow> rs = map Inr xs"
  by (induction rs arbitrary: xs rule: collect.induct) (auto split: sum.splits)

lemma collect_Inr: "collect rs = Inr xs \<longleftrightarrow> rs = map Inr xs"
  using collect_InrD collect_map_Inr by blast

lemma map_Inr_4:
  assumes "map Inr xs = [a, b, c, d]"
  shows "\<exists>x1 x2 x3 x4. xs = [x1, x2, x3, x4] \<and>
           a = Inr x1 \<and> b = Inr x2 \<and> c = Inr x3 \<and> d = Inr x4"
  using assms by (auto simp: map_eq_Cons_conv)

lemma crew_Inr:
  "crew self = Inr c \<longleftrightarrow>
     (\<exists>as ts. self_agents self = Inr as \<and> self_tasks self = Inr ts \<and>
        c = Crew as ts sequential True)"
  by (auto simp: crew_def split: sum.splits)

text \<open>
  The crew is assembled whenever the two YAML files hold an entry for each of the four
  agents and the four tasks.
\<close>

lemma crew_returns:
  assumes "{''market_news_monitor_agent'', ''data_analyst_agent'', ''content_creator_agent'',
            ''quality_assurance_agent''} \<subseteq> dom (agents_config self)"
    and "{''monitor_market_news_task'', ''analyze_market_data_task'', ''create_content_task'',
          ''quality_assurance_task''} \<subseteq> dom (tasks_config self)"
  shows "\<exists>c. crew self = Inr c"
  using assms
  by (auto simp: crew_def self_agents_def self_tasks_def agent_defs task_defs getitem_def)

lemma agent_tools:
  "market_news_monitor_agent self = Inr a \<Longrightarrow> tools a = [serper (cls self), scraper (cls self)]"
  "data_analyst_agent self = Inr a \<Longrightarrow> tools a = [serper (cls self), searcher (cls self)]"
  "content_creator_agent self = Inr a \<Longrightarrow> tools a = [serper (cls self), scraper (cls self)]"
  "quality_assurance_agent self = Inr a \<Longrightarrow> tools a = []"
  by (auto simp: agent_defs getitem_def Agent_init_def split: option.splits)

lemma crew_self_example: "crew self_example = Inr crew_example"
  by (simp add: crew_def self_agents_def self_tasks_def agent_defs task_defs getitem_def
      Agent_init_def self_example_def cls_example_def crew_example_def)


section \<open>Properties of the program\<close>



text \<open>
  C2. The specification says that a key bound neither in the environment file nor in the
  process environment never makes this code raise. The class body does raise: with
  \<^verbatim>\<open>SERPER_API_KEY\<close> bound nowhere, \<open>get_value\<close> returns \<^verbatim>\<open>None\<close> and the assignment
  \<^verbatim>\<open>os.environ["SERPER_API_KEY"] = None\<close> of line 33 ends the class body with
  \<^verbatim>\<open>TypeError\<close>.
\<close>

theorem class_body_unset_raises:
  "fst (get_value ''SERPER_API_KEY'' w_unset) = None \<and>
   fst (class_body w_unset) = Inl TypeError"
  by (simp add: class_body_raises_iff) (simp add: fst_get_value w_unset_def)





text \<open>
  C5. The last task of the crew is the result of \<open>quality_assurance_task\<close>. It declares
  the class \<open>ContentOutput\<close> as its structured output and \<^verbatim>\<open>report.md\<close> as its output
  file. \<open>ContentOutput\<close> has exactly two fields: \<^verbatim>\<open>article\<close>, a string, and
  \<^verbatim>\<open>social_media_posts\<close>, a list of \<open>SocialMediaPost\<close>; a \<open>SocialMediaPost\<close> has exactly
  the two string fields \<^verbatim>\<open>platform\<close> and \<^verbatim>\<open>content\<close>.
\<close>

theorem final_task_output:
  assumes "crew self = Inr c"
  shows "tasks c \<noteq> [] \<and> Inr (last (tasks c)) = quality_assurance_task self \<and>
    output_pydantic (last (tasks c)) = Some ContentOutput \<and>
    output_file (last (tasks c)) = Some ''report.md'' \<and>
    map (\<lambda>f. (field_name f, annotation f)) (model_fields ContentOutput) =
      [(''article'', PyStr), (''social_media_posts'', PyList (PyModel SocialMediaPost))] \<and>
    map (\<lambda>f. (field_name f, annotation f)) (model_fields SocialMediaPost) =
      [(''platform'', PyStr), (''content'', PyStr)]"
proof -
  from assms obtain as ts where ts: "self_tasks self = Inr ts" and
    c: "c = Crew as ts sequential True"
    by (auto simp: crew_Inr)
  from ts have "map Inr ts =
      [monitor_market_news_task self, analyze_market_data_task self,
       create_content_task self, quality_assurance_task self]"
    by (simp add: self_tasks_def collect_Inr)
  from map_Inr_4 [OF this] obtain t1 t2 t3 t4 where
    ts4: "ts = [t1, t2, t3, t4]" and t4: "quality_assurance_task self = Inr t4"
    by auto
  from t4 have "output_pydantic t4 = Some ContentOutput" "output_file t4 = Some ''report.md''"
    by (auto simp: quality_assurance_task_def getitem_def split: option.splits)
  then show ?thesis
    using t4 by (simp add: c ts4 ContentOutput_def SocialMediaPost_def)
qed

theorem final_task_output_witness:
  "crew self_example = Inr crew_example \<and>
   last (tasks crew_example) = Task ''t4'' None (Some ContentOutput) (Some ''report.md'') \<and>
   output_pydantic (last (tasks crew_example)) = Some ContentOutput \<and>
   output_file (last (tasks crew_example)) = Some ''report.md''"
proof -
  note h = crew_self_example
  from final_task_output [OF h] show ?thesis
    using h by (simp add: crew_example_def)
qed



text \<open>
  C7, as stated: the class body changes no environment variable but \<^verbatim>\<open>SERPER_API_KEY\<close>.
  This fails. The two calls of \<open>get_value\<close> load the environment file, and loading sets
  every name that the file binds and the process environment does not hold yet: here
  \<^verbatim>\<open>OPENAI_API_KEY\<close>, unset before a class body that completes, is set afterwards.
\<close>

theorem class_body_environ_counterexample:
  "environ w_file_only ''OPENAI_API_KEY'' = None \<and>
   fst (class_body w_file_only) = Inr cls_example \<and>
   environ (snd (class_body w_file_only)) ''OPENAI_API_KEY'' = Some ''o-file''"
  by (simp add: class_body_w_file_only environ_class_body) (simp add: w_file_only_def)

text \<open>
  C7, amended. The class body leaves every variable that was set before with its value;
  a variable that was not set ends with the value the environment file gives it, and stays
  unset when the file does not bind it. When the class body completes,
  \<^verbatim>\<open>SERPER_API_KEY\<close> holds the resolved key, under that same name.
\<close>

theorem class_body_environ:
  "(\<forall>k v. environ w k = Some v \<longrightarrow> environ (snd (class_body w)) k = Some v) \<and>
   (\<forall>k. environ w k = None \<longrightarrow> environ (snd (class_body w)) k = dotenv_file w k) \<and>
   (\<forall>c. fst (class_body w) = Inr c \<longrightarrow>
      serperApiKey c \<noteq> None \<and>
      environ (snd (class_body w)) ''SERPER_API_KEY'' = serperApiKey c)"
proof -
  have "serperApiKey c \<noteq> None \<and> environ (snd (class_body w)) ''SERPER_API_KEY'' = serperApiKey c"
    if "fst (class_body w) = Inr c" for c
  proof -
    from class_body_Inr [OF that] obtain s where
      "fst (get_value ''SERPER_API_KEY'' w) = Some s" and "serperApiKey c = Some s"
      by auto
    then show ?thesis
      by (simp add: environ_class_body fst_get_value)
  qed
  then show ?thesis
    by (simp add: environ_class_body map_add_def)
qed

theorem class_body_environ_witness:
  "environ w_both ''SERPER_API_KEY'' = Some ''k-env'' \<and>
   environ (snd (class_body w_both)) ''SERPER_API_KEY'' = Some ''k-env'' \<and>
   environ w_both ''HOME'' = Some ''/root'' \<and>
   environ (snd (class_body w_both)) ''HOME'' = Some ''/root'' \<and>
   environ w_both ''OPENAI_API_KEY'' = None \<and>
   environ (snd (class_body w_both)) ''OPENAI_API_KEY'' = Some ''o-file'' \<and>
   environ w_both ''PATH'' = None \<and>
   environ (snd (class_body w_both)) ''PATH'' = None \<and>
   fst (class_body w_both) =
     Inr \<lparr>agents_config_file = ''config/agents.yaml'', tasks_config_file = ''config/tasks.yaml'',
          serperApiKey = Some ''k-env'', serper = 0, scraper = 1, searcher = 2\<rparr>"
proof -
  have e: "environ w_both ''SERPER_API_KEY'' = Some ''k-env''"
    "environ w_both ''HOME'' = Some ''/root''"
    "environ w_both ''OPENAI_API_KEY'' = None" "environ w_both ''PATH'' = None"
    "dotenv_file w_both ''OPENAI_API_KEY'' = Some ''o-file''"
    "dotenv_file w_both ''PATH'' = None"
    by (simp_all add: w_both_def)
  have r: "fst (class_body w_both) =
     Inr \<lparr>agents_config_file = ''config/agents.yaml'', tasks_config_file = ''config/tasks.yaml'',
          serperApiKey = Some ''k-env'', serper = 0, scraper = 1, searcher = 2\<rparr>"
    by (simp add: class_body_unfold Let_def fst_get_value w_both_def)
  from class_body_environ [of w_both] show ?thesis
    using e r by simp
qed



text \<open>
  C9. The class body writes the resolved \<^verbatim>\<open>SERPER_API_KEY\<close> to standard output. Two runs
  that start with the same output and resolve the key to two different strings end with
  different outputs.
\<close>

theorem stdout_reveals_key:
  assumes "fst (get_value ''SERPER_API_KEY'' w1) = Some a"
    and "fst (get_value ''SERPER_API_KEY'' w2) = Some b"
    and "a \<noteq> b" and "stdout w1 = stdout w2"
  shows "stdout (snd (class_body w1)) = stdout w1 @ ''*****SERPER_API_KEY: '' @ a @ [CHR 0x0A] \<and>
    stdout (snd (class_body w2)) = stdout w2 @ ''*****SERPER_API_KEY: '' @ b @ [CHR 0x0A] \<and>
    stdout (snd (class_body w1)) \<noteq> stdout (snd (class_body w2))"
  using assms by (simp add: stdout_class_body py_format_def)

theorem stdout_reveals_key_witness:
  "fst (get_value ''SERPER_API_KEY'' w_key_a) = Some ''aaa'' \<and>
   fst (get_value ''SERPER_API_KEY'' w_key_b) = Some ''bbb'' \<and>
   ''aaa'' \<noteq> ''bbb'' \<and> stdout w_key_a = stdout w_key_b \<and>
   w_key_b = w_key_a\<lparr>environ := (environ w_key_a)(''SERPER_API_KEY'' \<mapsto> ''bbb'')\<rparr> \<and>
   stdout (snd (class_body w_key_a)) = ''*****SERPER_API_KEY: aaa'' @ [CHR 0x0A] \<and>
   stdout (snd (class_body w_key_b)) = ''*****SERPER_API_KEY: bbb'' @ [CHR 0x0A] \<and>
   stdout (snd (class_body w_key_a)) \<noteq> stdout (snd (class_body w_key_b))"
proof -
  have a: "fst (get_value ''SERPER_API_KEY'' w_key_a) = Some ''aaa''"
    by (simp add: fst_get_value w_key_a_def)
  have b: "fst (get_value ''SERPER_API_KEY'' w_key_b) = Some ''bbb''"
    by (simp add: fst_get_value w_key_b_def)
  have c: "''aaa'' \<noteq> ''bbb''" by simp
  have d: "stdout w_key_a = stdout w_key_b"
    by (simp add: w_key_a_def w_key_b_def)
  have e: "w_key_b = w_key_a\<lparr>environ := (environ w_key_a)(''SERPER_API_KEY'' \<mapsto> ''bbb'')\<rparr>"
    by (simp add: w_key_a_def w_key_b_def)
  have f: "stdout w_key_a = []" by (simp add: w_key_a_def)
  from stdout_reveals_key [OF a b c d] show ?thesis
    using a b d e f by simp
qed

text \<open>
  C10. \<open>quality_assurance_agent\<close> is constructed without a \<^verbatim>\<open>tools\<close> argument and carries
  no tool; each of the other three agents carries exactly two.
\<close>

theorem quality_assurance_agent_no_tools:
  "(\<forall>a. quality_assurance_agent self = Inr a \<longrightarrow> tools a = []) \<and>
   (\<forall>a. market_news_monitor_agent self = Inr a \<longrightarrow> length (tools a) = 2) \<and>
   (\<forall>a. data_analyst_agent self = Inr a \<longrightarrow> length (tools a) = 2) \<and>
   (\<forall>a. content_creator_agent self = Inr a \<longrightarrow> length (tools a) = 2)"
  by (auto dest!: agent_tools)

theorem quality_assurance_agent_no_tools_witness:
  "quality_assurance_agent self_example = Inr (Agent ''qa'' []) \<and>
   tools (Agent ''qa'' [] :: string agent) = [] \<and>
   market_news_monitor_agent self_example = Inr (Agent ''monitor'' [0, 1]) \<and>
   data_analyst_agent self_example = Inr (Agent ''analyst'' [0, 2]) \<and>
   content_creator_agent self_example = Inr (Agent ''creator'' [0, 1]) \<and>
   length (tools (Agent ''monitor'' [0, 1] :: string agent)) = 2"
proof -
  have q: "quality_assurance_agent self_example = Inr (Agent ''qa'' [])"
    "market_news_monitor_agent self_example = Inr (Agent ''monitor'' [0, 1])"
    "data_analyst_agent self_example = Inr (Agent ''analyst'' [0, 2])"
    "content_creator_agent self_example = Inr (Agent ''creator'' [0, 1])"
    by (simp_all add: agent_defs getitem_def Agent_init_def self_example_def cls_example_def)
  from quality_assurance_agent_no_tools [of self_example] show ?thesis
    using q by simp
qed

end
